theory Spec2Isabelle
  imports Complex_Main
begin

section \<open>Values exchanged with the browser and the engine\<close>

text \<open>
  The component \<^verbatim>\<open>VideoConverter\<close> exists in two revisions: the one of
  \<^verbatim>\<open>src/components/VideoConverter.tsx\<close> and a later one that creates the engine
  instance lazily and renders a second banner. Definitions of the later revision carry
  the suffix \<open>_rev\<close>; everything without the suffix is shared or belongs to the first.

  A thrown value is represented by the string that \<^verbatim>\<open>`${error}`\<close> produces for it.
  Numbers are modelled by reals (progress fractions) and integers (the progress state).
\<close>

type_synonym bytes = "nat list"

type_synonym thrown = string

record js_file =
  name :: string
  file_ref :: nat

record blob =
  parts :: "bytes list"
  blob_type :: string

datatype notification = Log string | Progress real

text \<open>
  Every call that leaves the component is written to a log, in order. The constructor
  \<open>RevokeObjectURL\<close> stands for \<^verbatim>\<open>URL.revokeObjectURL\<close>, so that a statement can say
  whether it occurs.
\<close>

datatype call =
    ToBlobURL string string
  | Load string string
  | FetchFile js_file
  | WriteFile string bytes
  | Exec "string list"
  | ReadFile string
  | CreateObjectURL blob
  | RevokeObjectURL string

text \<open>
  An awaited call settles with a thrown value or a result; the engine's notifications
  that arrive while the call is pending come with it.
\<close>

type_synonym 'a reply = "notification list \<times> (thrown + 'a)"

text \<open>
  The engine (\<^verbatim>\<open>@ffmpeg/ffmpeg\<close>), its helpers (\<^verbatim>\<open>@ffmpeg/util\<close>) and the browser
  are not part of the repository: they are a parameter. Each answer may depend on all
  calls made before (the engine has a virtual filesystem of its own). The field \<open>fl\<close>
  rounds an exact product to the number the multiplication \<^verbatim>\<open>p * 100\<close> yields.
\<close>

record world =
  toBlobURL :: "call list \<Rightarrow> string \<Rightarrow> string \<Rightarrow> string reply"
  load :: "call list \<Rightarrow> string \<Rightarrow> string \<Rightarrow> bool reply"
  fetchFile :: "call list \<Rightarrow> js_file \<Rightarrow> bytes reply"
  writeFile :: "call list \<Rightarrow> string \<Rightarrow> bytes \<Rightarrow> bool reply"
  exec :: "call list \<Rightarrow> string list \<Rightarrow> int reply"
  readFile :: "call list \<Rightarrow> string \<Rightarrow> bytes reply"
  createObjectURL :: "call list \<Rightarrow> blob \<Rightarrow> string"
  fl :: "real \<Rightarrow> real"

section \<open>Component state\<close>

record state =
  ffmpegLoaded :: bool
  videoFile :: "js_file option"
  gifUrl :: "string option"
  isConverting :: bool
  progress :: int
  message :: "string option"
  ffmpegRef :: bool
  calls :: "call list"

text \<open>The first revision starts with an engine instance, the later one with \<^verbatim>\<open>null\<close>.\<close>

definition init :: state where
  "init = \<lparr>ffmpegLoaded = False, videoFile = None, gifUrl = None, isConverting = False,
     progress = 0, message = None, ffmpegRef = True, calls = []\<rparr>"

definition init_rev :: state where
  "init_rev = \<lparr>ffmpegLoaded = False, videoFile = None, gifUrl = None, isConverting = False,
     progress = 0, message = None, ffmpegRef = False, calls = []\<rparr>"

section \<open>String and number primitives\<close>

text \<open>\<^verbatim>\<open>Math.round\<close>: the nearest integer, a tie going up.\<close>

definition Math_round :: "real \<Rightarrow> int" where
  "Math_round x = \<lfloor>x + 1 / 2\<rfloor>"

text \<open>\<^verbatim>\<open>s.split(sep)\<close> for a separator of one character.\<close>

fun js_split :: "char \<Rightarrow> string \<Rightarrow> string list" where
  "js_split sep [] = [[]]"
| "js_split sep (c # cs) =
     (if c = sep then [] # js_split sep cs
      else (case js_split sep cs of
              [] \<Rightarrow> [[c]]
            | seg # segs \<Rightarrow> (c # seg) # segs))"

text \<open>\<^verbatim>\<open>xs.pop()\<close> and \<^verbatim>\<open>xs[0]\<close>: \<^verbatim>\<open>undefined\<close> on an empty array.\<close>

definition js_pop :: "'a list \<Rightarrow> 'a option" where
  "js_pop xs = (if xs = [] then None else Some (last xs))"

definition js_first :: "'a list \<Rightarrow> 'a option" where
  "js_first xs = (case xs of [] \<Rightarrow> None | x # _ \<Rightarrow> Some x)"

text \<open>String conversion of a value that may be \<^verbatim>\<open>undefined\<close>.\<close>

definition js_str :: "string option \<Rightarrow> string" where
  "js_str v = (case v of None \<Rightarrow> ''undefined'' | Some s \<Rightarrow> s)"

definition startsWith :: "string \<Rightarrow> string \<Rightarrow> bool" where
  "startsWith s p = (take (length p) s = p)"

fun js_includes :: "string \<Rightarrow> string \<Rightarrow> bool" where
  "js_includes [] p = (p = [])"
| "js_includes (c # cs) p = (startsWith (c # cs) p \<or> js_includes cs p)"

text \<open>Truthiness of a string state: neither \<^verbatim>\<open>null\<close> nor empty.\<close>

definition truthy :: "string option \<Rightarrow> bool" where
  "truthy v = (case v of None \<Rightarrow> False | Some s \<Rightarrow> s \<noteq> [])"

section \<open>Notification handlers\<close>

text \<open>
  The two handlers that \<^verbatim>\<open>loadFfmpeg\<close> registers with \<^verbatim>\<open>ffmpeg.on\<close>.
\<close>

fun on_notification :: "world \<Rightarrow> notification \<Rightarrow> state \<Rightarrow> state" where
  "on_notification w (Log logMessage) s = s\<lparr>message := Some logMessage\<rparr>"
| "on_notification w (Progress p) s = s\<lparr>progress := Math_round (fl w (p * 100))\<rparr>"

definition deliver :: "world \<Rightarrow> notification list \<Rightarrow> state \<Rightarrow> state" where
  "deliver w ns s = fold (on_notification w) ns s"

text \<open>
  Awaiting a call: the call is logged, the notifications that arrive meanwhile are
  handled, and the call's outcome is returned with the state.
\<close>

definition await :: "world \<Rightarrow> call \<Rightarrow> 'a reply \<Rightarrow> state \<Rightarrow> state \<times> (thrown + 'a)" where
  "await w c r s = (deliver w (fst r) (s\<lparr>calls := calls s @ [c]\<rparr>), snd r)"

section \<open>Loading the engine\<close>

definition baseURL :: string where
  "baseURL = ''https://unpkg.com/@ffmpeg/core@0.12.6/dist/umd''"

text \<open>The body of the \<^verbatim>\<open>try\<close> block of \<^verbatim>\<open>loadFfmpeg\<close>.\<close>

definition load_try :: "world \<Rightarrow> state \<Rightarrow> state \<times> (thrown + bool)" where
  "load_try w s0 =
     (case await w (ToBlobURL (baseURL @ ''/ffmpeg-core.js'') ''text/javascript'')
             (toBlobURL w (calls s0) (baseURL @ ''/ffmpeg-core.js'') ''text/javascript'') s0 of
        (s1, Inl error) \<Rightarrow> (s1, Inl error)
      | (s1, Inr coreURL) \<Rightarrow>
     (case await w (ToBlobURL (baseURL @ ''/ffmpeg-core.wasm'') ''application/wasm'')
             (toBlobURL w (calls s1) (baseURL @ ''/ffmpeg-core.wasm'') ''application/wasm'') s1 of
        (s2, Inl error) \<Rightarrow> (s2, Inl error)
      | (s2, Inr wasmURL) \<Rightarrow>
          await w (Load coreURL wasmURL) (load w (calls s2) coreURL wasmURL) s2))"

definition loadFfmpeg :: "world \<Rightarrow> state \<Rightarrow> state" where
  "loadFfmpeg w s =
     (let s0 = s\<lparr>message := Some ''Loading FFMPEG.WASM (ffmpeg.wasm)... This may take a moment.''\<rparr>
      in case load_try w s0 of
           (s1, Inr _) \<Rightarrow>
             s1\<lparr>ffmpegLoaded := True, message := Some ''FFMPEG loaded successfully!''\<rparr>
         | (s1, Inl error) \<Rightarrow>
             s1\<lparr>message := Some (''Error loading FFMPEG: '' @ error), ffmpegLoaded := False\<rparr>)"

definition loadFfmpeg_rev :: "world \<Rightarrow> state \<Rightarrow> state" where
  "loadFfmpeg_rev w s = loadFfmpeg w (if \<not> ffmpegRef s then s\<lparr>ffmpegRef := True\<rparr> else s)"

text \<open>The effect that runs once when the component is first displayed.\<close>

definition mount :: "world \<Rightarrow> state" where
  "mount w = loadFfmpeg w init"

definition mount_rev :: "world \<Rightarrow> state" where
  "mount_rev w = (if \<not> ffmpegRef init_rev then loadFfmpeg_rev w init_rev else init_rev)"

section \<open>File intake\<close>

text \<open>The argument is \<^verbatim>\<open>event.target.files?.[0]\<close>.\<close>

definition handleFileChange :: "js_file option \<Rightarrow> state \<Rightarrow> state" where
  "handleFileChange file s =
     (case file of
        Some f \<Rightarrow> s\<lparr>videoFile := Some f, gifUrl := None,
                    message := Some ''Video file selected.'', progress := 0\<rparr>
      | None \<Rightarrow> s)"

section \<open>Conversion\<close>

definition inputFileName :: "js_file \<Rightarrow> string" where
  "inputFileName f = ''input.'' @ js_str (js_pop (js_split CHR ''.'' (name f)))"

definition outputFileName :: string where
  "outputFileName = ''output.gif''"

definition exec_args :: "js_file \<Rightarrow> string list" where
  "exec_args f =
     [''-i'', inputFileName f, ''-vf'', ''fps=15,scale=480:-1:flags=lanczos'', outputFileName]"

text \<open>The body of the \<^verbatim>\<open>try\<close> block of \<^verbatim>\<open>convertToGif\<close>.\<close>

definition convert_try :: "world \<Rightarrow> js_file \<Rightarrow> state \<Rightarrow> state \<times> (thrown + unit)" where
  "convert_try w f s0 =
     (case await w (FetchFile f) (fetchFile w (calls s0) f) s0 of
        (s1, Inl error) \<Rightarrow> (s1, Inl error)
      | (s1, Inr bs) \<Rightarrow>
     (case await w (WriteFile (inputFileName f) bs)
             (writeFile w (calls s1) (inputFileName f) bs) s1 of
        (s2, Inl error) \<Rightarrow> (s2, Inl error)
      | (s2, Inr _) \<Rightarrow>
     (let s3 = s2\<lparr>message := Some ''Video file written to FFMPEG memory.''\<rparr>;
          s4 = s3\<lparr>message := Some ''Running FFMPEG command...''\<rparr>
      in case await w (Exec (exec_args f)) (exec w (calls s4) (exec_args f)) s4 of
        (s5, Inl error) \<Rightarrow> (s5, Inl error)
      | (s5, Inr _) \<Rightarrow>
     (let s6 = s5\<lparr>message := Some ''Conversion complete! Reading output...''\<rparr>
      in case await w (ReadFile outputFileName) (readFile w (calls s6) outputFileName) s6 of
        (s7, Inl error) \<Rightarrow> (s7, Inl error)
      | (s7, Inr data) \<Rightarrow>
     (let b = \<lparr>parts = [data], blob_type = ''image/gif''\<rparr>;
          url = createObjectURL w (calls s7) b;
          s8 = s7\<lparr>calls := calls s7 @ [CreateObjectURL b]\<rparr>;
          s9 = s8\<lparr>gifUrl := Some url\<rparr>
      in (s9\<lparr>message := Some ''GIF generated successfully!''\<rparr>, Inr ()))))))"

text \<open>
  What \<^verbatim>\<open>convertToGif\<close> does once both guards have passed: the state updates before
  the \<^verbatim>\<open>try\<close>, the \<^verbatim>\<open>try\<close> block, the \<^verbatim>\<open>catch\<close> and the \<^verbatim>\<open>finally\<close>. This part is the
  same text in both revisions.
\<close>

definition attempt :: "world \<Rightarrow> js_file \<Rightarrow> state \<Rightarrow> state" where
  "attempt w f s =
     (let s0 = s\<lparr>isConverting := True, gifUrl := None, progress := 0,
                 message := Some ''Starting conversion...''\<rparr>;
          s1 = (case convert_try w f s0 of
                  (s', Inr _) \<Rightarrow> s'
                | (s', Inl error) \<Rightarrow>
                    s'\<lparr>message := Some (''Conversion error: '' @ error), gifUrl := None\<rparr>)
      in s1\<lparr>isConverting := False, progress := 100\<rparr>)"

definition convertToGif :: "world \<Rightarrow> state \<Rightarrow> state" where
  "convertToGif w s =
     (if \<not> ffmpegLoaded s then s\<lparr>message := Some ''FFMPEG is not loaded yet. Please wait.''\<rparr>
      else case videoFile s of
             None \<Rightarrow> s\<lparr>message := Some ''Please select a video file first.''\<rparr>
           | Some f \<Rightarrow> attempt w f s)"

definition convertToGif_rev :: "world \<Rightarrow> state \<Rightarrow> state" where
  "convertToGif_rev w s =
     (if \<not> ffmpegRef s \<or> \<not> ffmpegLoaded s
      then s\<lparr>message := Some ''FFMPEG is not loaded yet. Please wait.''\<rparr>
      else case videoFile s of
             None \<Rightarrow> s\<lparr>message := Some ''Please select a video file first.''\<rparr>
           | Some f \<Rightarrow> attempt w f s)"

section \<open>What can happen after the first display\<close>

text \<open>
  After the mount effect the component only reacts: to a change of the file input, to a
  press of the convert button and to a notification of the engine. Each handler may be
  invoked at any time; what the rendered view allows is a subset of that.
\<close>

datatype action =
    FileChange "js_file option"
  | ClickConvert
  | Notify notification

fun perform :: "world \<Rightarrow> action \<Rightarrow> state \<Rightarrow> state" where
  "perform w (FileChange file) s = handleFileChange file s"
| "perform w ClickConvert s = convertToGif w s"
| "perform w (Notify n) s = on_notification w n s"

fun perform_rev :: "world \<Rightarrow> action \<Rightarrow> state \<Rightarrow> state" where
  "perform_rev w (FileChange file) s = handleFileChange file s"
| "perform_rev w ClickConvert s = convertToGif_rev w s"
| "perform_rev w (Notify n) s = on_notification w n s"

definition session :: "world \<Rightarrow> action list \<Rightarrow> state" where
  "session w acts = fold (perform w) acts (mount w)"

definition session_rev :: "world \<Rightarrow> action list \<Rightarrow> state" where
  "session_rev w acts = fold (perform_rev w) acts (mount_rev w)"

text \<open>Selectors of the call log.\<close>

fun is_Exec :: "call \<Rightarrow> bool" where
  "is_Exec (Exec args) = True"
| "is_Exec c = False"

fun is_WriteFile :: "call \<Rightarrow> bool" where
  "is_WriteFile (WriteFile path bs) = True"
| "is_WriteFile c = False"

fun is_bootstrap :: "call \<Rightarrow> bool" where
  "is_bootstrap (ToBlobURL url mimeType) = True"
| "is_bootstrap (Load coreURL wasmURL) = True"
| "is_bootstrap c = False"

fun is_revoke :: "call \<Rightarrow> bool" where
  "is_revoke (RevokeObjectURL url) = True"
| "is_revoke c = False"

text \<open>The calls made between two states of one run.\<close>

definition calls_since :: "state \<Rightarrow> state \<Rightarrow> call list" where
  "calls_since s s' = drop (length (calls s)) (calls s')"

section \<open>Rendering\<close>

datatype variant = Destructive | Default

record alert =
  variant :: variant
  title :: string
  description :: string

text \<open>
  The parts of the rendered card that depend on the state. An absent element is
  \<open>None\<close>; the input and the button carry their \<^verbatim>\<open>disabled\<close> attribute; the progress
  section carries its label, the bar's value and the paragraph shown under it; the
  result section carries the image source and the download name.
\<close>

record view =
  status_alert :: "alert option"
  file_input :: "bool option"
  convert_button :: "bool option"
  progress_section :: "(string \<times> int \<times> string option) option"
  gif_section :: "(string \<times> string) option"
  result_alert :: "alert option"

text \<open>\<^verbatim>\<open>message?.startsWith("Error")\<close>, falsy on \<^verbatim>\<open>null\<close>.\<close>

definition message_startsWith :: "string option \<Rightarrow> string \<Rightarrow> bool" where
  "message_startsWith m p = (case m of None \<Rightarrow> False | Some s \<Rightarrow> startsWith s p)"

definition message_includes :: "string option \<Rightarrow> string \<Rightarrow> bool" where
  "message_includes m p = (case m of None \<Rightarrow> False | Some s \<Rightarrow> js_includes s p)"

text \<open>\<^verbatim>\<open>a || b\<close> on strings.\<close>

definition js_or :: "string option \<Rightarrow> string \<Rightarrow> string" where
  "js_or a b = (if truthy a then js_str a else b)"

text \<open>The \<^verbatim>\<open>Alert\<close> element; both banners choose variant and title in the same way.\<close>

definition alert_for :: "string option \<Rightarrow> string \<Rightarrow> alert" where
  "alert_for m text =
     \<lparr>variant = (if message_startsWith m ''Error'' then Destructive else Default),
      title = (if message_startsWith m ''Error'' then ''Error'' else ''Status''),
      description = text\<rparr>"

definition download_name :: "js_file option \<Rightarrow> string" where
  "download_name vf =
     js_or (case vf of None \<Rightarrow> None | Some f \<Rightarrow> js_first (js_split CHR ''.'' (name f)))
       ''converted'' @ ''.gif''"

definition render :: "state \<Rightarrow> view" where
  "render s =
     \<lparr>status_alert =
        (if \<not> ffmpegLoaded s \<and> truthy (message s)
         then Some (alert_for (message s) (js_or (message s) ''Loading FFMPEG...''))
         else None),
      file_input = (if ffmpegLoaded s then Some (isConverting s) else None),
      convert_button =
        (if ffmpegLoaded s \<and> videoFile s \<noteq> None \<and> \<not> isConverting s
         then Some (videoFile s = None \<or> isConverting s \<or> \<not> ffmpegLoaded s)
         else None),
      progress_section =
        (if (isConverting s \<or> progress s > 0) \<and> ffmpegLoaded s
         then Some (if isConverting s then ''Converting...'' else ''Progress'', progress s,
                    if truthy (message s) then message s else None)
         else None),
      gif_section =
        (if truthy (gifUrl s) \<and> \<not> isConverting s
         then Some (js_str (gifUrl s), download_name (videoFile s))
         else None),
      result_alert = None\<rparr>"

definition render_rev :: "state \<Rightarrow> view" where
  "render_rev s =
     \<lparr>status_alert =
        (if (\<not> ffmpegLoaded s \<or> message_includes (message s) ''Loading FFMPEG'')
            \<and> truthy (message s)
         then Some (alert_for (message s) (js_or (message s) ''Loading FFMPEG...''))
         else None),
      file_input = (if ffmpegLoaded s then Some (isConverting s) else None),
      convert_button =
        (if ffmpegLoaded s \<and> videoFile s \<noteq> None \<and> \<not> isConverting s
         then Some (videoFile s = None \<or> isConverting s \<or> \<not> ffmpegLoaded s)
         else None),
      progress_section =
        (if (isConverting s \<or> (progress s > 0 \<and> progress s < 100)) \<and> ffmpegLoaded s
         then Some (if isConverting s then ''Converting...'' else ''Progress'', progress s,
                    if truthy (message s)
                       \<and> \<not> message_startsWith (message s) ''FFMPEG loaded successfully!''
                    then message s else None)
         else None),
      gif_section =
        (if truthy (gifUrl s) \<and> \<not> isConverting s
         then Some (js_str (gifUrl s), download_name (videoFile s))
         else None),
      result_alert =
        (if ffmpegLoaded s \<and> truthy (message s)
            \<and> \<not> message_includes (message s) ''Loading FFMPEG''
            \<and> \<not> isConverting s \<and> progress s = 100
         then Some (alert_for (message s) (js_str (message s)))
         else None)\<rparr>"

section \<open>The specification's words\<close>

text \<open>
  The last segment of a name that is separated by dots: what follows the last dot, or
  the whole name when it has none.
\<close>

definition last_segment :: "string \<Rightarrow> string" where
  "last_segment nm = rev (takeWhile (\<lambda>c. c \<noteq> CHR ''.'') (rev nm))"

text \<open>
  A rounding to representable numbers is monotone and leaves \<open>0\<close> and \<open>100\<close> as they are.
\<close>

definition rounding :: "(real \<Rightarrow> real) \<Rightarrow> bool" where
  "rounding r = (mono r \<and> r 0 = 0 \<and> r 100 = 100)"

text \<open>
  What a sequence of notifications leaves to be seen: the text of its last log line and
  the fraction of its last progress report, if it has any.
\<close>

fun last_log :: "notification list \<Rightarrow> string option" where
  "last_log [] = None"
| "last_log (n # ns) =
     (case last_log ns of
        Some m \<Rightarrow> Some m
      | None \<Rightarrow> (case n of Log m \<Rightarrow> Some m | Progress p \<Rightarrow> None))"

fun last_progress :: "notification list \<Rightarrow> real option" where
  "last_progress [] = None"
| "last_progress (n # ns) =
     (case last_progress ns of
        Some p \<Rightarrow> Some p
      | None \<Rightarrow> (case n of Log m \<Rightarrow> None | Progress p \<Rightarrow> Some p))"

section \<open>Example inputs\<close>

definition clip :: js_file where
  "clip = \<lparr>name = ''clip.mp4'', file_ref = 0\<rparr>"

text \<open>A world in which every call succeeds; the run reports one log line and half-way progress.\<close>

definition w_ok :: world where
  "w_ok =
     \<lparr>toBlobURL = (\<lambda>h url mimeType. ([], Inr (''blob:'' @ url))),
      load = (\<lambda>h coreURL wasmURL. ([], Inr True)),
      fetchFile = (\<lambda>h f. ([], Inr [0, 0, 0, 24])),
      writeFile = (\<lambda>h path bs. ([], Inr True)),
      exec = (\<lambda>h args. ([Log ''frame= 1'', Progress (1 / 2)], Inr 0)),
      readFile = (\<lambda>h path. ([], Inr [71, 73, 70])),
      createObjectURL = (\<lambda>h b. ''blob:gif''),
      fl = (\<lambda>x. x)\<rparr>"

text \<open>Worlds in which one call is rejected.\<close>

definition w_load_fails :: world where
  "w_load_fails = w_ok\<lparr>load := (\<lambda>h coreURL wasmURL. ([], Inl ''Error: failed to import ffmpeg-core.js''))\<rparr>"

definition w_write_fails :: world where
  "w_write_fails = w_ok\<lparr>writeFile := (\<lambda>h path bs. ([], Inl ''Error: ffmpeg is not loaded''))\<rparr>"

definition w_exec_fails :: world where
  "w_exec_fails = w_ok\<lparr>exec := (\<lambda>h args. ([Log ''frame= 1'', Progress (1 / 2)], Inl ''Error: boom''))\<rparr>"

definition w_read_fails :: world where
  "w_read_fails = w_ok\<lparr>readFile := (\<lambda>h path. ([], Inl ''ErrnoError: FS error''))\<rparr>"

text \<open>A world whose multiplication rounds down to multiples of one eighth.\<close>

definition w_coarse :: world where
  "w_coarse = w_ok\<lparr>fl := (\<lambda>x. real_of_int \<lfloor>x * 8\<rfloor> / 8)\<rparr>"

text \<open>The state after the engine has loaded and \<open>clip\<close> has been selected.\<close>

definition ready :: state where
  "ready = \<lparr>ffmpegLoaded = True, videoFile = Some clip, gifUrl = None, isConverting = False,
     progress = 0, message = Some ''Video file selected.'', ffmpegRef = True, calls = []\<rparr>"

section \<open>Basic facts\<close>

lemma js_split_nonempty: "js_split sep s \<noteq> []"
  by (induction s) (auto split: list.splits)

lemma js_split_no_sep: "sep \<notin> set s \<Longrightarrow> js_split sep s = [s]"
  by (induction s) auto

lemma js_split_sep: "sep \<in> set s \<Longrightarrow> tl (js_split sep s) \<noteq> []"
  by (induction s) (auto simp: js_split_nonempty js_split_no_sep split: list.splits)

lemma last_js_split: "last (js_split sep s) = rev (takeWhile (\<lambda>c. c \<noteq> sep) (rev s))"
proof (induction s)
  case Nil
  show ?case by simp
next
  case (Cons x xs)
  show ?case
  proof (cases "x = sep")
    case True
    then show ?thesis
      using Cons.IH by (simp add: js_split_nonempty takeWhile_append)
  next
    case False
    show ?thesis
    proof (cases "sep \<in> set xs")
      case True
      obtain seg segs where sp: "js_split sep xs = seg # segs"
        by (cases "js_split sep xs") (simp_all add: js_split_nonempty)
      with js_split_sep [OF True] have "segs \<noteq> []" by simp
      with sp Cons.IH True False show ?thesis
        by (auto simp: takeWhile_append)
    next
      case notin: False
      with False show ?thesis
        by (simp add: js_split_no_sep takeWhile_append)
    qed
  qed
qed

lemma inputFileName_last_segment: "inputFileName f = ''input.'' @ last_segment (name f)"
  by (simp add: inputFileName_def js_pop_def js_str_def js_split_nonempty last_js_split
      last_segment_def)

lemma rounding_bounds:
  assumes "rounding r" "0 \<le> p" "p \<le> 1"
  shows "0 \<le> r (p * 100) \<and> r (p * 100) \<le> 100"
proof -
  from assms have m: "mono r" and z: "r 0 = 0" and h: "r 100 = 100"
    by (simp_all add: rounding_def)
  from assms have b: "0 \<le> p * 100" "p * 100 \<le> 100" by simp_all
  from monoD [OF m b(1)] monoD [OF m b(2)] z h show ?thesis by simp
qed

lemma Math_round_bounds:
  "0 \<le> x \<Longrightarrow> x \<le> 100 \<Longrightarrow> 0 \<le> Math_round x \<and> Math_round x \<le> 100"
  unfolding Math_round_def by (simp add: le_floor_iff floor_le_iff)

text \<open>Notifications touch the message and the progress only.\<close>

lemma on_notification_keeps:
  "calls (on_notification w n s) = calls s"
  "ffmpegLoaded (on_notification w n s) = ffmpegLoaded s"
  "videoFile (on_notification w n s) = videoFile s"
  "gifUrl (on_notification w n s) = gifUrl s"
  "isConverting (on_notification w n s) = isConverting s"
  "ffmpegRef (on_notification w n s) = ffmpegRef s"
  by (cases n; simp)+

lemma deliver_keeps:
  "calls (deliver w ns s) = calls s"
  "ffmpegLoaded (deliver w ns s) = ffmpegLoaded s"
  "videoFile (deliver w ns s) = videoFile s"
  "gifUrl (deliver w ns s) = gifUrl s"
  "isConverting (deliver w ns s) = isConverting s"
  "ffmpegRef (deliver w ns s) = ffmpegRef s"
  unfolding deliver_def
  by (induction ns arbitrary: s; simp add: on_notification_keeps)+

lemma await_calls: "calls (fst (await w c r s)) = calls s @ [c]"
  by (simp add: await_def deliver_keeps)

lemma await_snd: "snd (await w c r s) = snd r"
  by (simp add: await_def)

lemma await_keeps:
  "ffmpegLoaded (fst (await w c r s)) = ffmpegLoaded s"
  "videoFile (fst (await w c r s)) = videoFile s"
  "gifUrl (fst (await w c r s)) = gifUrl s"
  "isConverting (fst (await w c r s)) = isConverting s"
  "ffmpegRef (fst (await w c r s)) = ffmpegRef s"
  by (simp_all add: await_def deliver_keeps)

text \<open>The \<^verbatim>\<open>finally\<close> block and the \<^verbatim>\<open>catch\<close> block.\<close>

lemma attempt_finally:
  "isConverting (attempt w f s) = False" "progress (attempt w f s) = 100"
  by (simp_all add: attempt_def Let_def split: prod.splits sum.splits)

lemma attempt_catch:
  assumes "snd (convert_try w f (s\<lparr>isConverting := True, gifUrl := None, progress := 0,
                 message := Some ''Starting conversion...''\<rparr>)) = Inl error"
  shows "gifUrl (attempt w f s) = None"
    and "message (attempt w f s) = Some (''Conversion error: '' @ error)"
  using assms by (auto simp: attempt_def Let_def split: prod.splits sum.splits)

lemma calls_since_append: "calls s' = calls s @ cs \<Longrightarrow> calls_since s s' = cs"
  by (simp add: calls_since_def)

text \<open>A case distinction on an awaited call is one on its reply.\<close>

lemma await_case:
  "(case await w c r s of (s', Inl e) \<Rightarrow> A s' e | (s', Inr v) \<Rightarrow> B s' v) =
   (case snd r of Inl e \<Rightarrow> A (fst (await w c r s)) e | Inr v \<Rightarrow> B (fst (await w c r s)) v)"
  by (simp add: await_def split: sum.splits)

lemma attempt_calls_fetch_throws:
  assumes "snd (fetchFile w (calls s) f) = Inl e"
  shows "calls (attempt w f s) = calls s @ [FetchFile f]"
  using assms by (simp add: attempt_def convert_try_def await_case await_calls)

lemma attempt_calls_write_throws:
  assumes "snd (fetchFile w (calls s) f) = Inr bs"
    and "snd (writeFile w (calls s @ [FetchFile f]) (inputFileName f) bs) = Inl e"
  shows "calls (attempt w f s) = calls s @ [FetchFile f, WriteFile (inputFileName f) bs]"
  using assms by (simp add: attempt_def convert_try_def await_case await_calls)

lemma attempt_calls_exec_throws:
  assumes "snd (fetchFile w (calls s) f) = Inr bs"
    and "snd (writeFile w (calls s @ [FetchFile f]) (inputFileName f) bs) = Inr ok"
    and "snd (exec w (calls s @ [FetchFile f, WriteFile (inputFileName f) bs]) (exec_args f)) = Inl e"
  shows "calls (attempt w f s) =
         calls s @ [FetchFile f, WriteFile (inputFileName f) bs, Exec (exec_args f)]"
  using assms by (simp add: attempt_def convert_try_def await_case await_calls)

lemma attempt_calls_read_throws:
  assumes "snd (fetchFile w (calls s) f) = Inr bs"
    and "snd (writeFile w (calls s @ [FetchFile f]) (inputFileName f) bs) = Inr ok"
    and "snd (exec w (calls s @ [FetchFile f, WriteFile (inputFileName f) bs]) (exec_args f)) = Inr n"
    and "snd (readFile w (calls s @ [FetchFile f, WriteFile (inputFileName f) bs,
               Exec (exec_args f)]) outputFileName) = Inl e"
  shows "calls (attempt w f s) =
         calls s @ [FetchFile f, WriteFile (inputFileName f) bs, Exec (exec_args f),
                    ReadFile outputFileName]"
  using assms by (simp add: attempt_def convert_try_def await_case await_calls)

lemma attempt_success:
  assumes "snd (fetchFile w (calls s) f) = Inr bs"
    and "snd (writeFile w (calls s @ [FetchFile f]) (inputFileName f) bs) = Inr ok"
    and "snd (exec w (calls s @ [FetchFile f, WriteFile (inputFileName f) bs]) (exec_args f)) = Inr n"
    and "snd (readFile w (calls s @ [FetchFile f, WriteFile (inputFileName f) bs,
               Exec (exec_args f)]) outputFileName) = Inr data"
  shows "calls (attempt w f s) =
         calls s @ [FetchFile f, WriteFile (inputFileName f) bs, Exec (exec_args f),
                    ReadFile outputFileName,
                    CreateObjectURL \<lparr>parts = [data], blob_type = ''image/gif''\<rparr>]"
    and "gifUrl (attempt w f s) =
         Some (createObjectURL w
                 (calls s @ [FetchFile f, WriteFile (inputFileName f) bs, Exec (exec_args f),
                    ReadFile outputFileName])
                 \<lparr>parts = [data], blob_type = ''image/gif''\<rparr>)"
    and "message (attempt w f s) = Some ''GIF generated successfully!''"
  using assms by (simp_all add: attempt_def convert_try_def await_case await_calls Let_def)

lemma attempt_calls_kinds:
  "filter is_revoke (calls (attempt w f s)) = filter is_revoke (calls s)"
  "filter is_bootstrap (calls (attempt w f s)) = filter is_bootstrap (calls s)"
  by (simp_all add: attempt_def convert_try_def await_case await_calls Let_def
      split: sum.splits)

lemma attempt_keeps:
  "ffmpegLoaded (attempt w f s) = ffmpegLoaded s"
  "videoFile (attempt w f s) = videoFile s"
  "ffmpegRef (attempt w f s) = ffmpegRef s"
  by (simp_all add: attempt_def convert_try_def await_case await_keeps Let_def
      split: sum.splits)

lemma loadFfmpeg_no_revoke:
  "filter is_revoke (calls (loadFfmpeg w s)) = filter is_revoke (calls s)"
  by (simp add: loadFfmpeg_def load_try_def await_case await_calls Let_def
      split: sum.splits prod.splits)

lemma convertToGif_calls_kinds:
  "filter is_revoke (calls (convertToGif w s)) = filter is_revoke (calls s)"
  "filter is_bootstrap (calls (convertToGif w s)) = filter is_bootstrap (calls s)"
  "filter is_revoke (calls (convertToGif_rev w s)) = filter is_revoke (calls s)"
  "filter is_bootstrap (calls (convertToGif_rev w s)) = filter is_bootstrap (calls s)"
  by (simp_all add: convertToGif_def convertToGif_rev_def attempt_calls_kinds
      split: option.splits)

lemma convertToGif_keeps:
  "ffmpegLoaded (convertToGif w s) = ffmpegLoaded s"
  "ffmpegLoaded (convertToGif_rev w s) = ffmpegLoaded s"
  by (simp_all add: convertToGif_def convertToGif_rev_def attempt_keeps split: option.splits)

lemma perform_calls_kinds:
  "filter is_revoke (calls (perform w a s)) = filter is_revoke (calls s)"
  "filter is_bootstrap (calls (perform w a s)) = filter is_bootstrap (calls s)"
  "filter is_revoke (calls (perform_rev w a s)) = filter is_revoke (calls s)"
  "filter is_bootstrap (calls (perform_rev w a s)) = filter is_bootstrap (calls s)"
  by (cases a; simp add: handleFileChange_def on_notification_keeps convertToGif_calls_kinds
      split: option.splits)+

lemma perform_ffmpegLoaded:
  "ffmpegLoaded (perform w a s) = ffmpegLoaded s"
  "ffmpegLoaded (perform_rev w a s) = ffmpegLoaded s"
  by (cases a; simp add: handleFileChange_def on_notification_keeps convertToGif_keeps
      split: option.splits)+

lemma fold_perform:
  "filter is_revoke (calls (fold (perform w) acts s)) = filter is_revoke (calls s)"
  "filter is_bootstrap (calls (fold (perform w) acts s)) = filter is_bootstrap (calls s)"
  "ffmpegLoaded (fold (perform w) acts s) = ffmpegLoaded s"
  by (induction acts arbitrary: s; simp add: perform_calls_kinds perform_ffmpegLoaded)+

lemma fold_perform_rev:
  "filter is_revoke (calls (fold (perform_rev w) acts s)) = filter is_revoke (calls s)"
  "filter is_bootstrap (calls (fold (perform_rev w) acts s)) = filter is_bootstrap (calls s)"
  "ffmpegLoaded (fold (perform_rev w) acts s) = ffmpegLoaded s"
  by (induction acts arbitrary: s; simp add: perform_calls_kinds perform_ffmpegLoaded)+

lemma mount_rev_eq: "mount_rev w = mount w"
  by (simp add: mount_rev_def mount_def loadFfmpeg_rev_def init_rev_def init_def)

text \<open>A \<^verbatim>\<open>try\<close> block throws what its first failing call throws.\<close>

lemma convert_try_outcome:
  "snd (convert_try w f s) =
     (case snd (fetchFile w (calls s) f) of
        Inl e \<Rightarrow> Inl e
      | Inr bs \<Rightarrow>
     (case snd (writeFile w (calls s @ [FetchFile f]) (inputFileName f) bs) of
        Inl e \<Rightarrow> Inl e
      | Inr ok \<Rightarrow>
     (case snd (exec w (calls s @ [FetchFile f, WriteFile (inputFileName f) bs])
                  (exec_args f)) of
        Inl e \<Rightarrow> Inl e
      | Inr n \<Rightarrow>
     (case snd (readFile w (calls s @ [FetchFile f, WriteFile (inputFileName f) bs,
                  Exec (exec_args f)]) outputFileName) of
        Inl e \<Rightarrow> Inl e
      | Inr data \<Rightarrow> Inr ()))))"
  by (simp add: convert_try_def await_case await_calls await_snd Let_def split: sum.splits)

lemma load_try_outcome:
  "snd (load_try w s) =
     (case snd (toBlobURL w (calls s) (baseURL @ ''/ffmpeg-core.js'') ''text/javascript'') of
        Inl e \<Rightarrow> Inl e
      | Inr coreURL \<Rightarrow>
     (case snd (toBlobURL w
                  (calls s @ [ToBlobURL (baseURL @ ''/ffmpeg-core.js'') ''text/javascript''])
                  (baseURL @ ''/ffmpeg-core.wasm'') ''application/wasm'') of
        Inl e \<Rightarrow> Inl e
      | Inr wasmURL \<Rightarrow>
          snd (load w
                 (calls s @ [ToBlobURL (baseURL @ ''/ffmpeg-core.js'') ''text/javascript'',
                             ToBlobURL (baseURL @ ''/ffmpeg-core.wasm'') ''application/wasm''])
                 coreURL wasmURL)))"
  by (simp add: load_try_def await_case await_calls await_snd split: sum.splits)

lemma loadFfmpeg_bootstrap_calls:
  "length (filter is_bootstrap (calls (loadFfmpeg w s))) \<le> length (filter is_bootstrap (calls s)) + 3"
  by (simp add: loadFfmpeg_def load_try_def await_case await_calls Let_def
      split: sum.splits prod.splits)

lemma loadFfmpeg_throws:
  assumes "snd (load_try w (s\<lparr>message :=
             Some ''Loading FFMPEG.WASM (ffmpeg.wasm)... This may take a moment.''\<rparr>)) = Inl error"
  shows "ffmpegLoaded (loadFfmpeg w s) = False"
    and "message (loadFfmpeg w s) = Some (''Error loading FFMPEG: '' @ error)"
  using assms by (auto simp: loadFfmpeg_def Let_def split: prod.splits sum.splits)

lemma attempt_writes:
  assumes "snd (fetchFile w (calls s) f) = Inr bs"
  shows "filter is_WriteFile (calls_since s (attempt w f s)) = [WriteFile (inputFileName f) bs]"
proof (cases "snd (writeFile w (calls s @ [FetchFile f]) (inputFileName f) bs)")
  case (Inl e)
  from attempt_calls_write_throws [OF assms Inl] show ?thesis
    by (simp add: calls_since_def)
next
  case written: (Inr ok)
  let ?h = "calls s @ [FetchFile f, WriteFile (inputFileName f) bs]"
  show ?thesis
  proof (cases "snd (exec w ?h (exec_args f))")
    case (Inl e)
    from attempt_calls_exec_throws [OF assms written Inl] show ?thesis
      by (simp add: calls_since_def)
  next
    case (Inr n)
    show ?thesis
    proof (cases "snd (readFile w (?h @ [Exec (exec_args f)]) outputFileName)")
      case (Inl e)
      with attempt_calls_read_throws [OF assms written Inr] show ?thesis
        by (simp add: calls_since_def)
    next
      case data: (Inr d)
      with attempt_success(1) [OF assms written Inr] show ?thesis
        by (simp add: calls_since_def)
    qed
  qed
qed

lemma attempt_execs:
  assumes "snd (fetchFile w (calls s) f) = Inr bs"
    and "snd (writeFile w (calls s @ [FetchFile f]) (inputFileName f) bs) = Inr ok"
  shows "filter is_Exec (calls_since s (attempt w f s)) = [Exec (exec_args f)]"
proof -
  let ?h = "calls s @ [FetchFile f, WriteFile (inputFileName f) bs]"
  show ?thesis
  proof (cases "snd (exec w ?h (exec_args f))")
    case (Inl e)
    from attempt_calls_exec_throws [OF assms Inl] show ?thesis
      by (simp add: calls_since_def)
  next
    case (Inr n)
    show ?thesis
    proof (cases "snd (readFile w (?h @ [Exec (exec_args f)]) outputFileName)")
      case (Inl e)
      with attempt_calls_read_throws [OF assms Inr] show ?thesis
        by (simp add: calls_since_def)
    next
      case data: (Inr d)
      with attempt_success(1) [OF assms Inr] show ?thesis
        by (simp add: calls_since_def)
    qed
  qed
qed

lemma attempt_reads:
  assumes "snd (fetchFile w (calls s) f) = Inr bs"
    and "snd (writeFile w (calls s @ [FetchFile f]) (inputFileName f) bs) = Inr ok"
    and "snd (exec w (calls s @ [FetchFile f, WriteFile (inputFileName f) bs]) (exec_args f)) = Inr n"
  shows "take 4 (calls_since s (attempt w f s)) =
           [FetchFile f, WriteFile (inputFileName f) bs, Exec (exec_args f),
            ReadFile outputFileName]"
proof (cases "snd (readFile w (calls s @ [FetchFile f, WriteFile (inputFileName f) bs,
                 Exec (exec_args f)]) outputFileName)")
  case (Inl e)
  from attempt_calls_read_throws [OF assms Inl] show ?thesis
    by (simp add: calls_since_def)
next
  case (Inr d)
  from attempt_success(1) [OF assms Inr] show ?thesis
    by (simp add: calls_since_def)
qed

lemma ready_facts:
  "ffmpegLoaded ready" "videoFile ready = Some clip" "ffmpegRef ready" "calls ready = []"
  "\<not> isConverting ready"
  by (simp_all add: ready_def)

lemma inputFileName_clip: "inputFileName clip = ''input.mp4''"
  by (simp add: inputFileName_def clip_def js_pop_def js_str_def)

text \<open>What a delivery of notifications leaves in the state.\<close>

lemma Math_round_nearest:
  "real_of_int (Math_round x) \<le> x + 1 / 2 \<and> x + 1 / 2 < real_of_int (Math_round x) + 1"
  unfolding Math_round_def by linarith

lemma deliver_Cons: "deliver w (n # ns) s = deliver w ns (on_notification w n s)"
  by (simp add: deliver_def)

lemma deliver_message:
  "message (deliver w ns s) = (case last_log ns of None \<Rightarrow> message s | Some m \<Rightarrow> Some m)"
proof (induction ns arbitrary: s)
  case Nil
  show ?case by (simp add: deliver_def)
next
  case (Cons n ns)
  show ?case
    by (cases n) (simp_all add: deliver_Cons Cons.IH split: option.splits)
qed

lemma deliver_progress:
  "progress (deliver w ns s) =
     (case last_progress ns of None \<Rightarrow> progress s | Some p \<Rightarrow> Math_round (fl w (p * 100)))"
proof (induction ns arbitrary: s)
  case Nil
  show ?case by (simp add: deliver_def)
next
  case (Cons n ns)
  show ?case
    by (cases n) (simp_all add: deliver_Cons Cons.IH split: option.splits)
qed

lemma session_snoc: "session w (acts @ [a]) = perform w a (session w acts)"
  "session_rev w (acts @ [a]) = perform_rev w a (session_rev w acts)"
  by (simp_all add: session_def session_rev_def)

section \<open>The claims\<close>

text \<open>
  C1 (the code departs from it). The claim: every thrown error that reaches the user is
  shown in a banner of the destructive style. Both banners choose the destructive style
  when the message starts with \<^verbatim>\<open>Error\<close>, and the \<^verbatim>\<open>catch\<close> block of
  \<^verbatim>\<open>convertToGif\<close> writes a message that starts with \<^verbatim>\<open>Conversion error:\<close>. So no
  conversion error is ever styled as destructive; at the run that fails in \<^verbatim>\<open>exec\<close> the
  later revision shows it in a banner of the default style with the title
  \<^verbatim>\<open>Status\<close>, and the first revision shows no banner at all, only the paragraph under
  the progress bar.
\<close>

theorem conversion_error_banner_default:
  "alert_for (Some (''Conversion error: '' @ error)) body =
     \<lparr>variant = Default, title = ''Status'', description = body\<rparr> \<and>
   message (convertToGif_rev w_exec_fails ready) = Some ''Conversion error: Error: boom'' \<and>
   result_alert (render_rev (convertToGif_rev w_exec_fails ready)) =
     Some \<lparr>variant = Default, title = ''Status'',
           description = ''Conversion error: Error: boom''\<rparr> \<and>
   status_alert (render_rev (convertToGif_rev w_exec_fails ready)) = None \<and>
   message (convertToGif w_exec_fails ready) = Some ''Conversion error: Error: boom'' \<and>
   status_alert (render (convertToGif w_exec_fails ready)) = None \<and>
   result_alert (render (convertToGif w_exec_fails ready)) = None \<and>
   progress_section (render (convertToGif w_exec_fails ready)) =
     Some (''Progress'', 100, Some ''Conversion error: Error: boom'')"
proof -
  let ?pre = "ready\<lparr>isConverting := True, gifUrl := None, progress := 0,
                 message := Some ''Starting conversion...''\<rparr>"
  let ?post = "attempt w_exec_fails clip ready"
  have a: "alert_for (Some (''Conversion error: '' @ error)) body =
     \<lparr>variant = Default, title = ''Status'', description = body\<rparr>"
    by (simp add: alert_for_def message_startsWith_def startsWith_def)
  have ex: "snd (convert_try w_exec_fails clip ?pre) = Inl ''Error: boom''"
    by (simp add: convert_try_outcome w_exec_fails_def w_ok_def)
  have c: "convertToGif w_exec_fails ready = ?post" "convertToGif_rev w_exec_fails ready = ?post"
    by (simp_all add: convertToGif_def convertToGif_rev_def ready_facts)
  have m: "message ?post = Some ''Conversion error: Error: boom''"
    using attempt_catch(2) [OF ex] by simp
  have l: "ffmpegLoaded ?post" "\<not> isConverting ?post" "progress ?post = 100"
    by (simp_all add: attempt_keeps attempt_finally ready_facts)
  have r1: "result_alert (render_rev ?post) =
     Some \<lparr>variant = Default, title = ''Status'',
           description = ''Conversion error: Error: boom''\<rparr>"
    by (simp add: render_rev_def m l alert_for_def truthy_def message_includes_def
        message_startsWith_def startsWith_def js_str_def)
  have r2: "status_alert (render_rev ?post) = None"
    by (simp add: render_rev_def m l truthy_def message_includes_def startsWith_def)
  have r3: "status_alert (render ?post) = None" "result_alert (render ?post) = None"
    "progress_section (render ?post) = Some (''Progress'', 100, Some ''Conversion error: Error: boom'')"
    by (simp_all add: render_def m l truthy_def)
  from a c m r1 r2 r3 show ?thesis by simp
qed

theorem conversion_error_banner_default_witness:
  "variant (alert_for (Some ''Conversion error: TypeError: Failed to fetch'')
      ''Conversion error: TypeError: Failed to fetch'') = Default \<and>
   variant (alert_for (Some ''Error loading FFMPEG: TypeError: Failed to fetch'')
      ''Error loading FFMPEG: TypeError: Failed to fetch'') = Destructive \<and>
   result_alert (render_rev (convertToGif_rev w_exec_fails ready)) =
     Some \<lparr>variant = Default, title = ''Status'',
           description = ''Conversion error: Error: boom''\<rparr> \<and>
   status_alert (render (convertToGif w_exec_fails ready)) = None"
proof -
  have d: "variant (alert_for (Some ''Error loading FFMPEG: TypeError: Failed to fetch'')
      ''Error loading FFMPEG: TypeError: Failed to fetch'') = Destructive"
    by (simp add: alert_for_def message_startsWith_def startsWith_def)
  from d conversion_error_banner_default [of "''TypeError: Failed to fetch''"
      "''Conversion error: TypeError: Failed to fetch''"]
  show ?thesis by simp
qed

text \<open>
  C2. Whenever the \<^verbatim>\<open>try\<close> block of a conversion attempt ends by a throw (of the
  write, the run or the read, or of reading the file), the attempt ends with
  \<^verbatim>\<open>gifUrl\<close> \<^verbatim>\<open>null\<close>, \<^verbatim>\<open>isConverting\<close> false and the message
  \<^verbatim>\<open>Conversion error:\<close> followed by the description of what was thrown.
\<close>

theorem catch_all:
  assumes "snd (convert_try w f (s\<lparr>isConverting := True, gifUrl := None, progress := 0,
                 message := Some ''Starting conversion...''\<rparr>)) = Inl error"
    and "ffmpegLoaded s" and "videoFile s = Some f"
  shows "gifUrl (convertToGif w s) = None \<and> isConverting (convertToGif w s) = False \<and>
         message (convertToGif w s) = Some (''Conversion error: '' @ error) \<and>
         (ffmpegRef s \<longrightarrow>
            gifUrl (convertToGif_rev w s) = None \<and> isConverting (convertToGif_rev w s) = False \<and>
            message (convertToGif_rev w s) = Some (''Conversion error: '' @ error))"
  using assms by (simp add: convertToGif_def convertToGif_rev_def attempt_finally attempt_catch)

theorem catch_all_witness:
  "message (convertToGif w_write_fails ready) =
     Some ''Conversion error: Error: ffmpeg is not loaded'' \<and>
   message (convertToGif w_exec_fails ready) = Some ''Conversion error: Error: boom'' \<and>
   message (convertToGif w_read_fails ready) = Some ''Conversion error: ErrnoError: FS error'' \<and>
   message (convertToGif_rev w_read_fails ready) = Some ''Conversion error: ErrnoError: FS error'' \<and>
   gifUrl (convertToGif w_write_fails ready) = None \<and>
   gifUrl (convertToGif w_exec_fails ready) = None \<and>
   gifUrl (convertToGif w_read_fails ready) = None \<and>
   isConverting (convertToGif w_write_fails ready) = False \<and>
   isConverting (convertToGif w_exec_fails ready) = False \<and>
   isConverting (convertToGif w_read_fails ready) = False"
proof -
  let ?pre = "ready\<lparr>isConverting := True, gifUrl := None, progress := 0,
                 message := Some ''Starting conversion...''\<rparr>"
  have wr: "snd (convert_try w_write_fails clip ?pre) = Inl ''Error: ffmpeg is not loaded''"
    by (simp add: convert_try_outcome w_write_fails_def w_ok_def)
  have ex: "snd (convert_try w_exec_fails clip ?pre) = Inl ''Error: boom''"
    by (simp add: convert_try_outcome w_exec_fails_def w_ok_def)
  have rd: "snd (convert_try w_read_fails clip ?pre) = Inl ''ErrnoError: FS error''"
    by (simp add: convert_try_outcome w_read_fails_def w_ok_def)
  from catch_all [OF wr ready_facts(1,2)] catch_all [OF ex ready_facts(1,2)]
    catch_all [OF rd ready_facts(1,2)] ready_facts(3)
  show ?thesis by simp
qed

text \<open>
  C3. Whenever a conversion attempt reaches the run (the file was read and written), it
  calls \<^verbatim>\<open>exec\<close> exactly once, with the arguments \<^verbatim>\<open>-i\<close>, the input name, \<^verbatim>\<open>-vf\<close>,
  \<^verbatim>\<open>fps=15,scale=480:-1:flags=lanczos\<close> and \<^verbatim>\<open>output.gif\<close>.
\<close>

theorem exec_once_fixed_args:
  assumes "ffmpegLoaded s" and "videoFile s = Some f"
    and "snd (fetchFile w (calls s) f) = Inr bs"
    and "snd (writeFile w (calls s @ [FetchFile f]) (inputFileName f) bs) = Inr ok"
  shows "filter is_Exec (calls_since s (convertToGif w s)) =
           [Exec [''-i'', inputFileName f, ''-vf'', ''fps=15,scale=480:-1:flags=lanczos'',
                  ''output.gif'']] \<and>
         (ffmpegRef s \<longrightarrow>
            filter is_Exec (calls_since s (convertToGif_rev w s)) =
              [Exec [''-i'', inputFileName f, ''-vf'', ''fps=15,scale=480:-1:flags=lanczos'',
                     ''output.gif'']])"
  using assms(1,2) attempt_execs [OF assms(3,4)]
  by (simp add: convertToGif_def convertToGif_rev_def exec_args_def outputFileName_def)

theorem exec_once_fixed_args_witness:
  "filter is_Exec (calls_since ready (convertToGif w_read_fails ready)) =
     [Exec [''-i'', ''input.mp4'', ''-vf'', ''fps=15,scale=480:-1:flags=lanczos'', ''output.gif'']] \<and>
   filter is_Exec (calls_since ready (convertToGif_rev w_read_fails ready)) =
     [Exec [''-i'', ''input.mp4'', ''-vf'', ''fps=15,scale=480:-1:flags=lanczos'', ''output.gif'']]"
proof -
  have r: "snd (fetchFile w_read_fails (calls ready) clip) = Inr [0, 0, 0, 24]"
    "snd (writeFile w_read_fails (calls ready @ [FetchFile clip]) (inputFileName clip)
       [0, 0, 0, 24]) = Inr True"
    by (simp_all add: w_read_fails_def w_ok_def)
  from exec_once_fixed_args [OF ready_facts(1,2) r] ready_facts(3) inputFileName_clip
  show ?thesis by simp
qed

text \<open>
  C4. The input name is \<^verbatim>\<open>input.\<close> followed by the last segment of the file's name
  that dots separate, which is the whole name when it has no dot; and once the file's
  bytes are read, the attempt writes exactly these bytes, once, under that name.
\<close>

theorem input_name_from_extension:
  "inputFileName f = ''input.'' @ last_segment (name f) \<and>
   (CHR ''.'' \<notin> set (name f) \<longrightarrow> inputFileName f = ''input.'' @ name f) \<and>
   (ffmpegLoaded s \<and> videoFile s = Some f \<and> snd (fetchFile w (calls s) f) = Inr bs \<longrightarrow>
      filter is_WriteFile (calls_since s (convertToGif w s)) =
        [WriteFile (''input.'' @ last_segment (name f)) bs] \<and>
      (ffmpegRef s \<longrightarrow>
         filter is_WriteFile (calls_since s (convertToGif_rev w s)) =
           [WriteFile (''input.'' @ last_segment (name f)) bs]))"
proof -
  have a: "inputFileName f = ''input.'' @ last_segment (name f)"
    by (rule inputFileName_last_segment)
  have b: "inputFileName f = ''input.'' @ name f" if "CHR ''.'' \<notin> set (name f)"
    using that by (simp add: inputFileName_def js_split_no_sep js_pop_def js_str_def)
  have c: "filter is_WriteFile (calls_since s (convertToGif w s)) =
             [WriteFile (''input.'' @ last_segment (name f)) bs]"
    if "ffmpegLoaded s" "videoFile s = Some f" "snd (fetchFile w (calls s) f) = Inr bs"
    using that attempt_writes [of w s f bs] a by (simp add: convertToGif_def)
  have d: "filter is_WriteFile (calls_since s (convertToGif_rev w s)) =
             [WriteFile (''input.'' @ last_segment (name f)) bs]"
    if "ffmpegLoaded s" "videoFile s = Some f" "snd (fetchFile w (calls s) f) = Inr bs"
      "ffmpegRef s"
    using that attempt_writes [of w s f bs] a by (simp add: convertToGif_rev_def)
  from a b c d show ?thesis by blast
qed

theorem input_name_from_extension_witness:
  "inputFileName clip = ''input.mp4'' \<and>
   inputFileName \<lparr>name = ''holiday'', file_ref = 1\<rparr> = ''input.holiday'' \<and>
   last_segment ''clip.mp4'' = ''mp4'' \<and>
   filter is_WriteFile (calls_since ready (convertToGif w_ok ready)) =
     [WriteFile ''input.mp4'' [0, 0, 0, 24]] \<and>
   filter is_WriteFile (calls_since ready (convertToGif_rev w_ok ready)) =
     [WriteFile ''input.mp4'' [0, 0, 0, 24]]"
proof -
  have g: "ffmpegLoaded ready \<and> videoFile ready = Some clip \<and>
           snd (fetchFile w_ok (calls ready) clip) = Inr [0, 0, 0, 24]"
    "ffmpegRef ready"
    by (simp_all add: ready_def w_ok_def)
  have l: "last_segment (name clip) = ''mp4''" "last_segment ''clip.mp4'' = ''mp4''"
    "last_segment ''holiday'' = ''holiday''"
    by (simp_all add: last_segment_def clip_def)
  have n: "CHR ''.'' \<notin> set (name \<lparr>name = ''holiday'', file_ref = 1\<rparr>)"
    by simp
  from input_name_from_extension [of clip ready w_ok "[0, 0, 0, 24]"]
    input_name_from_extension [of "\<lparr>name = ''holiday'', file_ref = 1\<rparr>" ready w_ok "[]"]
    g l n
  show ?thesis by simp
qed

text \<open>
  C5. When the bootstrap of the engine throws (either fetch of a binary asset, or the
  engine's load routine), the component is left with \<^verbatim>\<open>ffmpegLoaded\<close> false and the
  message \<^verbatim>\<open>Error loading FFMPEG:\<close> followed by the description; and this is final:
  whatever the user and the engine do afterwards, \<^verbatim>\<open>ffmpegLoaded\<close> stays false and no
  further bootstrap call is made, the only ones being those of the mount effect (at most
  the three of one \<^verbatim>\<open>loadFfmpeg\<close>). Both revisions mount in the same way.
\<close>

theorem load_failure_terminal:
  assumes "snd (load_try w (init\<lparr>message :=
             Some ''Loading FFMPEG.WASM (ffmpeg.wasm)... This may take a moment.''\<rparr>)) = Inl error"
  shows "ffmpegLoaded (mount w) = False \<and>
         message (mount w) = Some (''Error loading FFMPEG: '' @ error) \<and>
         mount_rev w = mount w \<and>
         (\<forall>acts. ffmpegLoaded (session w acts) = False \<and>
                 ffmpegLoaded (session_rev w acts) = False \<and>
                 filter is_bootstrap (calls (session w acts)) =
                   filter is_bootstrap (calls (mount w)) \<and>
                 filter is_bootstrap (calls (session_rev w acts)) =
                   filter is_bootstrap (calls (mount w)) \<and>
                 length (filter is_bootstrap (calls (session w acts))) \<le> 3 \<and>
                 length (filter is_bootstrap (calls (session_rev w acts))) \<le> 3)"
proof -
  have l: "ffmpegLoaded (mount w) = False"
    and m: "message (mount w) = Some (''Error loading FFMPEG: '' @ error)"
    unfolding mount_def using loadFfmpeg_throws [OF assms] by simp_all
  have b: "length (filter is_bootstrap (calls (mount w))) \<le> 3"
    unfolding mount_def using loadFfmpeg_bootstrap_calls [of w init] by (simp add: init_def)
  from l m b show ?thesis
    by (simp add: session_def session_rev_def mount_rev_eq fold_perform fold_perform_rev)
qed

theorem load_failure_terminal_witness:
  "message (mount w_load_fails) =
     Some ''Error loading FFMPEG: Error: failed to import ffmpeg-core.js'' \<and>
   ffmpegLoaded (mount w_load_fails) = False \<and>
   ffmpegLoaded (session w_load_fails [FileChange (Some clip), ClickConvert]) = False \<and>
   ffmpegLoaded (session_rev w_load_fails [FileChange (Some clip), ClickConvert]) = False \<and>
   message (session w_load_fails [FileChange (Some clip), ClickConvert]) =
     Some ''FFMPEG is not loaded yet. Please wait.''"
proof -
  have h: "snd (load_try w_load_fails (init\<lparr>message :=
             Some ''Loading FFMPEG.WASM (ffmpeg.wasm)... This may take a moment.''\<rparr>)) =
           Inl ''Error: failed to import ffmpeg-core.js''"
    by (simp add: load_try_outcome w_load_fails_def w_ok_def)
  note t = load_failure_terminal [OF h]
  from t have f: "ffmpegLoaded (mount w_load_fails) = False"
    and s: "\<forall>acts. ffmpegLoaded (session w_load_fails acts) = False \<and>
                 ffmpegLoaded (session_rev w_load_fails acts) = False"
    by simp_all
  have c: "message (session w_load_fails [FileChange (Some clip), ClickConvert]) =
     Some ''FFMPEG is not loaded yet. Please wait.''"
    using f by (simp add: session_def handleFileChange_def convertToGif_def)
  from t s c show ?thesis by simp
qed

text \<open>
  C6. When the run completes, the next call reads \<^verbatim>\<open>output.gif\<close>; when the read
  completes too, its bytes are wrapped in a blob of type \<^verbatim>\<open>image/gif\<close>, the blob is
  handed to \<^verbatim>\<open>URL.createObjectURL\<close> and the URL that comes back is stored in
  \<^verbatim>\<open>gifUrl\<close>. And in no session, whatever happens in it, is
  \<^verbatim>\<open>URL.revokeObjectURL\<close> called.
\<close>

theorem gif_url_never_revoked:
  assumes "ffmpegLoaded s" and "videoFile s = Some f"
    and "snd (fetchFile w (calls s) f) = Inr bs"
    and "snd (writeFile w (calls s @ [FetchFile f]) (inputFileName f) bs) = Inr ok"
    and "snd (exec w (calls s @ [FetchFile f, WriteFile (inputFileName f) bs]) (exec_args f)) = Inr n"
  shows "take 4 (calls_since s (convertToGif w s)) =
           [FetchFile f, WriteFile (inputFileName f) bs, Exec (exec_args f),
            ReadFile ''output.gif''] \<and>
         (\<forall>data. snd (readFile w (calls s @ [FetchFile f, WriteFile (inputFileName f) bs,
                          Exec (exec_args f)]) ''output.gif'') = Inr data \<longrightarrow>
            calls_since s (convertToGif w s) =
              [FetchFile f, WriteFile (inputFileName f) bs, Exec (exec_args f),
               ReadFile ''output.gif'',
               CreateObjectURL \<lparr>parts = [data], blob_type = ''image/gif''\<rparr>] \<and>
            gifUrl (convertToGif w s) =
              Some (createObjectURL w
                      (calls s @ [FetchFile f, WriteFile (inputFileName f) bs,
                         Exec (exec_args f), ReadFile ''output.gif''])
                      \<lparr>parts = [data], blob_type = ''image/gif''\<rparr>)) \<and>
         (ffmpegRef s \<longrightarrow> convertToGif_rev w s = convertToGif w s) \<and>
         (\<forall>acts. filter is_revoke (calls (session w acts)) = [] \<and>
                 filter is_revoke (calls (session_rev w acts)) = [])"
proof -
  have c: "convertToGif w s = attempt w f s"
    using assms(1,2) by (simp add: convertToGif_def)
  have r: "convertToGif_rev w s = convertToGif w s" if "ffmpegRef s"
    using that assms(1,2) by (simp add: convertToGif_def convertToGif_rev_def)
  have t: "take 4 (calls_since s (convertToGif w s)) =
           [FetchFile f, WriteFile (inputFileName f) bs, Exec (exec_args f),
            ReadFile ''output.gif'']"
    using attempt_reads [OF assms(3-5)] by (simp add: c outputFileName_def)
  have u: "calls_since s (convertToGif w s) =
              [FetchFile f, WriteFile (inputFileName f) bs, Exec (exec_args f),
               ReadFile ''output.gif'',
               CreateObjectURL \<lparr>parts = [data], blob_type = ''image/gif''\<rparr>] \<and>
            gifUrl (convertToGif w s) =
              Some (createObjectURL w
                      (calls s @ [FetchFile f, WriteFile (inputFileName f) bs,
                         Exec (exec_args f), ReadFile ''output.gif''])
                      \<lparr>parts = [data], blob_type = ''image/gif''\<rparr>)"
    if "snd (readFile w (calls s @ [FetchFile f, WriteFile (inputFileName f) bs,
                          Exec (exec_args f)]) ''output.gif'') = Inr data" for data
    using attempt_success(1,2) [OF assms(3-5), of data] that
    by (simp add: c outputFileName_def calls_since_def)
  have m: "filter is_revoke (calls (mount w)) = []"
    by (simp add: mount_def loadFfmpeg_no_revoke init_def)
  have v: "filter is_revoke (calls (session w acts)) = [] \<and>
           filter is_revoke (calls (session_rev w acts)) = []" for acts
    by (simp add: session_def session_rev_def mount_rev_eq fold_perform fold_perform_rev m)
  from t u r v show ?thesis by blast
qed

theorem gif_url_never_revoked_witness:
  "calls_since ready (convertToGif w_ok ready) =
     [FetchFile clip, WriteFile ''input.mp4'' [0, 0, 0, 24],
      Exec [''-i'', ''input.mp4'', ''-vf'', ''fps=15,scale=480:-1:flags=lanczos'', ''output.gif''],
      ReadFile ''output.gif'',
      CreateObjectURL \<lparr>parts = [[71, 73, 70]], blob_type = ''image/gif''\<rparr>] \<and>
   gifUrl (convertToGif w_ok ready) = Some ''blob:gif'' \<and>
   convertToGif_rev w_ok ready = convertToGif w_ok ready \<and>
   filter is_revoke (calls (session w_ok
     [FileChange (Some clip), ClickConvert, FileChange (Some clip), ClickConvert])) = []"
proof -
  have r: "snd (fetchFile w_ok (calls ready) clip) = Inr [0, 0, 0, 24]"
    "snd (writeFile w_ok (calls ready @ [FetchFile clip]) (inputFileName clip)
       [0, 0, 0, 24]) = Inr True"
    "snd (exec w_ok (calls ready @ [FetchFile clip, WriteFile (inputFileName clip)
       [0, 0, 0, 24]]) (exec_args clip)) = Inr 0"
    by (simp_all add: w_ok_def)
  have d: "snd (readFile w_ok (calls ready @ [FetchFile clip, WriteFile (inputFileName clip)
       [0, 0, 0, 24], Exec (exec_args clip)]) ''output.gif'') = Inr [71, 73, 70]"
    "createObjectURL w_ok h b = ''blob:gif''" for h b
    by (simp_all add: w_ok_def)
  have e: "exec_args clip =
    [''-i'', ''input.mp4'', ''-vf'', ''fps=15,scale=480:-1:flags=lanczos'', ''output.gif'']"
    by (simp add: exec_args_def inputFileName_clip outputFileName_def)
  note t = gif_url_never_revoked [OF ready_facts(1,2) r]
  from t d(1) have
    "calls_since ready (convertToGif w_ok ready) =
       [FetchFile clip, WriteFile (inputFileName clip) [0, 0, 0, 24], Exec (exec_args clip),
        ReadFile ''output.gif'',
        CreateObjectURL \<lparr>parts = [[71, 73, 70]], blob_type = ''image/gif''\<rparr>]"
    "gifUrl (convertToGif w_ok ready) =
       Some (createObjectURL w_ok
               (calls ready @ [FetchFile clip, WriteFile (inputFileName clip) [0, 0, 0, 24],
                  Exec (exec_args clip), ReadFile ''output.gif''])
               \<lparr>parts = [[71, 73, 70]], blob_type = ''image/gif''\<rparr>)"
    by blast+
  moreover from t ready_facts(3) have "convertToGif_rev w_ok ready = convertToGif w_ok ready"
    by blast
  moreover from t have "filter is_revoke (calls (session w_ok
     [FileChange (Some clip), ClickConvert, FileChange (Some clip), ClickConvert])) = []"
    by blast
  ultimately show ?thesis
    by (simp add: d(2) e inputFileName_clip)
qed

text \<open>
  C7. The convert button is rendered exactly when the engine is loaded, a file is
  selected and no conversion runs, and then it is enabled; so selecting a file in a
  loaded, idle component shows the enabled button, and with no file selected there is
  no button.
\<close>

theorem convert_button_shown:
  "convert_button (render s) =
     (if ffmpegLoaded s \<and> videoFile s \<noteq> None \<and> \<not> isConverting s then Some False else None) \<and>
   convert_button (render_rev s) =
     (if ffmpegLoaded s \<and> videoFile s \<noteq> None \<and> \<not> isConverting s then Some False else None) \<and>
   (ffmpegLoaded s \<and> \<not> isConverting s \<longrightarrow>
      convert_button (render (handleFileChange (Some f) s)) = Some False \<and>
      convert_button (render_rev (handleFileChange (Some f) s)) = Some False) \<and>
   (videoFile s = None \<longrightarrow> convert_button (render s) = None \<and> convert_button (render_rev s) = None)"
  by (simp add: render_def render_rev_def handleFileChange_def)

theorem convert_button_shown_witness:
  "ffmpegLoaded (mount w_ok) \<and> \<not> isConverting (mount w_ok) \<and> videoFile (mount w_ok) = None \<and>
   convert_button (render (mount w_ok)) = None \<and>
   convert_button (render_rev (mount w_ok)) = None \<and>
   convert_button (render (handleFileChange (Some clip) (mount w_ok))) = Some False \<and>
   convert_button (render_rev (handleFileChange (Some clip) (mount w_ok))) = Some False"
proof -
  have g: "ffmpegLoaded (mount w_ok)" "\<not> isConverting (mount w_ok)" "videoFile (mount w_ok) = None"
    by (simp_all add: mount_def loadFfmpeg_def load_try_def await_def deliver_def init_def w_ok_def)
  from g convert_button_shown [of "mount w_ok" clip] show ?thesis by simp
qed

text \<open>
  C8. A log notification puts its text into the message and a progress notification with
  fraction \<open>p\<close> puts \<^verbatim>\<open>Math.round(p * 100)\<close> into the progress, where
  \<^verbatim>\<open>Math.round\<close> yields the integer nearest to its argument, a tie going up. So after
  the notifications that arrive during an awaited call, and after a notification at any
  point of a session, the message is the text of the last log line and the progress is
  the rounded percentage of the last progress report. When the fraction lies between 0
  and 1 the stored progress lies between 0 and 100, whatever the rounding of the product.
\<close>

theorem notifications_mirrored:
  "on_notification w (Log logMessage) s = s\<lparr>message := Some logMessage\<rparr> \<and>
   on_notification w (Progress p) s = s\<lparr>progress := Math_round (fl w (p * 100))\<rparr> \<and>
   real_of_int (Math_round x) \<le> x + 1 / 2 \<and> x + 1 / 2 < real_of_int (Math_round x) + 1 \<and>
   message (deliver w ns s) = (case last_log ns of None \<Rightarrow> message s | Some m \<Rightarrow> Some m) \<and>
   progress (deliver w ns s) =
     (case last_progress ns of None \<Rightarrow> progress s | Some q \<Rightarrow> Math_round (fl w (q * 100))) \<and>
   message (fst (await w c (ns, r) s)) =
     (case last_log ns of None \<Rightarrow> message s | Some m \<Rightarrow> Some m) \<and>
   progress (fst (await w c (ns, r) s)) =
     (case last_progress ns of None \<Rightarrow> progress s | Some q \<Rightarrow> Math_round (fl w (q * 100))) \<and>
   message (session w (acts @ [Notify (Log logMessage)])) = Some logMessage \<and>
   progress (session w (acts @ [Notify (Progress p)])) = Math_round (fl w (p * 100)) \<and>
   message (session_rev w (acts @ [Notify (Log logMessage)])) = Some logMessage \<and>
   progress (session_rev w (acts @ [Notify (Progress p)])) = Math_round (fl w (p * 100)) \<and>
   (rounding (fl w) \<and> 0 \<le> p \<and> p \<le> 1 \<longrightarrow>
      0 \<le> progress (on_notification w (Progress p) s) \<and>
      progress (on_notification w (Progress p) s) \<le> 100) \<and>
   (rounding (fl w) \<and> last_progress ns = Some p \<and> 0 \<le> p \<and> p \<le> 1 \<longrightarrow>
      0 \<le> progress (deliver w ns s) \<and> progress (deliver w ns s) \<le> 100)"
proof -
  have b: "0 \<le> Math_round (fl w (p * 100)) \<and> Math_round (fl w (p * 100)) \<le> 100"
    if "rounding (fl w)" "0 \<le> p" "p \<le> 1"
    using rounding_bounds [OF that] by (simp add: Math_round_bounds)
  have d: "0 \<le> progress (deliver w ns s) \<and> progress (deliver w ns s) \<le> 100"
    if "rounding (fl w)" "last_progress ns = Some p" "0 \<le> p" "p \<le> 1"
    using b [OF that(1,3,4)] that(2) by (simp add: deliver_progress)
  have a: "message (fst (await w c (ns, r) s)) =
             (case last_log ns of None \<Rightarrow> message s | Some m \<Rightarrow> Some m)"
    "progress (fst (await w c (ns, r) s)) =
       (case last_progress ns of None \<Rightarrow> progress s | Some q \<Rightarrow> Math_round (fl w (q * 100)))"
    by (simp_all add: await_def deliver_message deliver_progress split: option.splits)
  have e: "message (session w (acts @ [Notify (Log logMessage)])) = Some logMessage"
    "progress (session w (acts @ [Notify (Progress p)])) = Math_round (fl w (p * 100))"
    "message (session_rev w (acts @ [Notify (Log logMessage)])) = Some logMessage"
    "progress (session_rev w (acts @ [Notify (Progress p)])) = Math_round (fl w (p * 100))"
    by (simp_all add: session_snoc)
  have o: "on_notification w (Log logMessage) s = s\<lparr>message := Some logMessage\<rparr>"
    "on_notification w (Progress p) s = s\<lparr>progress := Math_round (fl w (p * 100))\<rparr>"
    by simp_all
  have p: "0 \<le> progress (on_notification w (Progress p) s) \<and>
      progress (on_notification w (Progress p) s) \<le> 100"
    if "rounding (fl w)" "0 \<le> p" "p \<le> 1"
    using b [OF that] by simp
  from Math_round_nearest [of x] deliver_message [of w ns s] deliver_progress [of w ns s]
    a e o p d
  show ?thesis by blast
qed

theorem notifications_mirrored_witness:
  "rounding (fl w_ok) \<and> rounding (fl w_coarse) \<and>
   message (on_notification w_ok (Log ''frame= 1'') ready) = Some ''frame= 1'' \<and>
   progress (on_notification w_ok (Progress (1 / 2)) ready) = 50 \<and>
   progress (on_notification w_ok (Progress (1 / 8)) ready) = 13 \<and>
   progress (on_notification w_ok (Progress (337 / 1000)) ready) = 34 \<and>
   progress (on_notification w_coarse (Progress (1 / 3)) ready) = 33 \<and>
   0 \<le> progress (on_notification w_coarse (Progress (1 / 3)) ready) \<and>
   progress (on_notification w_coarse (Progress (1 / 3)) ready) \<le> 100 \<and>
   message (deliver w_ok [Log ''frame= 1'', Progress (1 / 8), Log ''frame= 2'',
              Progress (337 / 1000)] ready) = Some ''frame= 2'' \<and>
   progress (deliver w_ok [Log ''frame= 1'', Progress (1 / 8), Log ''frame= 2'',
              Progress (337 / 1000)] ready) = 34 \<and>
   message (deliver w_ok [Progress (1 / 8)] ready) = Some ''Video file selected.'' \<and>
   progress (session w_ok [FileChange (Some clip), Notify (Progress (1 / 8))]) = 13"
proof -
  let ?ns = "[Log ''frame= 1'', Progress (1 / 8), Log ''frame= 2'', Progress (337 / 1000)]"
  have r: "rounding (fl w_ok)" "rounding (fl w_coarse)"
    by (simp_all add: rounding_def w_ok_def w_coarse_def mono_def floor_mono)
  have v: "Math_round (fl w_ok (1 / 2 * 100)) = 50" "Math_round (fl w_ok (1 / 8 * 100)) = 13"
    "Math_round (fl w_ok (337 / 1000 * 100)) = 34"
    "Math_round (fl w_coarse (1 / 3 * 100)) = 33"
    by (simp_all add: Math_round_def w_ok_def w_coarse_def)
  have q: "(0::real) \<le> 1 / 3" "(1 / 3 :: real) \<le> 1" by simp_all
  have l: "last_log ?ns = Some ''frame= 2''" "last_progress ?ns = Some (337 / 1000)"
    "last_log [Progress (1 / 8)] = None"
    by simp_all
  have m: "message ready = Some ''Video file selected.''" by (simp add: ready_def)
  note t1 = notifications_mirrored [of w_ok "''frame= 1''" ready "1 / 2" 0 ?ns
      "ReadFile outputFileName" "Inr ()" "[]"]
  note t2 = notifications_mirrored [of w_ok "''frame= 1''" ready "1 / 8" 0 "[Progress (1 / 8)]"
      "ReadFile outputFileName" "Inr ()" "[FileChange (Some clip)]"]
  note t3 = notifications_mirrored [of w_coarse "''frame= 1''" ready "1 / 3" 0 "[]"
      "ReadFile outputFileName" "Inr ()" "[]"]
  from t1 l have d1: "message (deliver w_ok ?ns ready) = Some ''frame= 2''"
    "progress (deliver w_ok ?ns ready) = Math_round (fl w_ok (337 / 1000 * 100))"
    by simp_all
  from t2 l m have d2: "message (deliver w_ok [Progress (1 / 8)] ready) = Some ''Video file selected.''"
    "progress (session w_ok [FileChange (Some clip), Notify (Progress (1 / 8))]) =
       Math_round (fl w_ok (1 / 8 * 100))"
    by simp_all
  from t3 r(2) q have d3: "0 \<le> progress (on_notification w_coarse (Progress (1 / 3)) ready) \<and>
      progress (on_notification w_coarse (Progress (1 / 3)) ready) \<le> 100"
    by blast
  from r v d1 d2 d3 show ?thesis by simp
qed

text \<open>
  C9. Every conversion attempt that passes the guards ends with \<^verbatim>\<open>isConverting\<close>
  false and the progress at 100, also when it failed.
\<close>

theorem finally_resets:
  "(ffmpegLoaded s \<and> videoFile s = Some f \<longrightarrow>
      isConverting (convertToGif w s) = False \<and> progress (convertToGif w s) = 100) \<and>
   (ffmpegRef s \<and> ffmpegLoaded s \<and> videoFile s = Some f \<longrightarrow>
      isConverting (convertToGif_rev w s) = False \<and> progress (convertToGif_rev w s) = 100)"
  by (simp add: convertToGif_def convertToGif_rev_def attempt_finally)

theorem finally_resets_witness:
  "ffmpegLoaded ready \<and> ffmpegRef ready \<and> videoFile ready = Some clip \<and>
   gifUrl (convertToGif w_ok ready) = Some ''blob:gif'' \<and>
   isConverting (convertToGif w_ok ready) = False \<and>
   progress (convertToGif w_ok ready) = 100 \<and>
   message (convertToGif w_exec_fails ready) = Some ''Conversion error: Error: boom'' \<and>
   isConverting (convertToGif w_exec_fails ready) = False \<and>
   progress (convertToGif w_exec_fails ready) = 100 \<and>
   isConverting (convertToGif_rev w_exec_fails ready) = False \<and>
   progress (convertToGif_rev w_exec_fails ready) = 100"
proof -
  let ?pre = "ready\<lparr>isConverting := True, gifUrl := None, progress := 0,
                 message := Some ''Starting conversion...''\<rparr>"
  have ex: "snd (convert_try w_exec_fails clip ?pre) = Inl ''Error: boom''"
    by (simp add: convert_try_outcome w_exec_fails_def w_ok_def)
  have m: "message (convertToGif w_exec_fails ready) = Some ''Conversion error: Error: boom''"
    using attempt_catch(2) [OF ex] by (simp add: convertToGif_def ready_facts)
  have u: "gifUrl (convertToGif w_ok ready) = Some ''blob:gif''"
    using attempt_success(2) [of w_ok ready clip "[0, 0, 0, 24]" True 0 "[71, 73, 70]"]
    by (simp add: convertToGif_def ready_facts w_ok_def)
  from m u ready_facts finally_resets [of ready clip w_exec_fails]
    finally_resets [of ready clip w_ok]
  show ?thesis by simp
qed

text \<open>
  C10. When \<^verbatim>\<open>convertToGif\<close> is invoked while the engine is not loaded, or while no
  file is selected, it makes no call at all and changes nothing but the message.
\<close>

theorem guards_return_early:
  assumes "\<not> ffmpegLoaded s \<or> videoFile s = None"
  shows "calls_since s (convertToGif w s) = [] \<and>
         convertToGif w s = s\<lparr>message := message (convertToGif w s)\<rparr> \<and>
         gifUrl (convertToGif w s) = gifUrl s \<and> progress (convertToGif w s) = progress s \<and>
         isConverting (convertToGif w s) = isConverting s \<and>
         videoFile (convertToGif w s) = videoFile s \<and>
         calls_since s (convertToGif_rev w s) = [] \<and>
         convertToGif_rev w s = s\<lparr>message := message (convertToGif_rev w s)\<rparr> \<and>
         gifUrl (convertToGif_rev w s) = gifUrl s \<and> progress (convertToGif_rev w s) = progress s \<and>
         isConverting (convertToGif_rev w s) = isConverting s \<and>
         videoFile (convertToGif_rev w s) = videoFile s"
  using assms by (auto simp: convertToGif_def convertToGif_rev_def calls_since_def)

theorem guards_return_early_witness:
  "\<not> ffmpegLoaded init \<and> videoFile (ready\<lparr>videoFile := None\<rparr>) = None \<and>
   message (convertToGif w_ok init) = Some ''FFMPEG is not loaded yet. Please wait.'' \<and>
   message (convertToGif w_ok (ready\<lparr>videoFile := None\<rparr>)) =
     Some ''Please select a video file first.'' \<and>
   calls_since init (convertToGif w_ok init) = [] \<and>
   gifUrl (convertToGif w_ok init) = gifUrl init \<and>
   calls_since (ready\<lparr>videoFile := None\<rparr>) (convertToGif_rev w_ok (ready\<lparr>videoFile := None\<rparr>)) = []"
proof -
  have i: "\<not> ffmpegLoaded init" by (simp add: init_def)
  then have a: "\<not> ffmpegLoaded init \<or> videoFile init = None" by simp
  have b: "\<not> ffmpegLoaded (ready\<lparr>videoFile := None\<rparr>) \<or> videoFile (ready\<lparr>videoFile := None\<rparr>) = None"
    by simp
  have m: "message (convertToGif w_ok init) = Some ''FFMPEG is not loaded yet. Please wait.''"
    "message (convertToGif w_ok (ready\<lparr>videoFile := None\<rparr>)) = Some ''Please select a video file first.''"
    by (simp_all add: convertToGif_def init_def ready_def)
  note t1 = guards_return_early [OF a, of w_ok] and t2 = guards_return_early [OF b, of w_ok]
  from t1 have "calls_since init (convertToGif w_ok init) = []"
    "gifUrl (convertToGif w_ok init) = gifUrl init" by blast+
  moreover from t2 have
    "calls_since (ready\<lparr>videoFile := None\<rparr>) (convertToGif_rev w_ok (ready\<lparr>videoFile := None\<rparr>)) = []"
    by blast
  ultimately show ?thesis using i m by simp
qed

end
